theory Spec2Isabelle
  imports Complex_Main "HOL-Library.Multiset"
begin

section \<open>Trafer: answer checking, attempt policy and feedback of \<^verbatim>\<open>app.py\<close>\<close>

text \<open>
  The development embeds the answer-checking and attempt-policy engine of \<^verbatim>\<open>app.py\<close>
  (a Streamlit application over an SQLite file) and proves the properties that its
  specification states of them.

  Conventions of the embedding.
  \<^item> A Python \<^verbatim>\<open>str\<close> is a \<open>string\<close>; each \<open>char\<close> stands for the Unicode code point
    of the same number, so the strings of the model are the Python strings over
    U+0000 .. U+00FF. The library functions \<^verbatim>\<open>str.strip\<close>, \<^verbatim>\<open>str.lower\<close>, \<^verbatim>\<open>str.upper\<close>
    and \<^verbatim>\<open>repr\<close> are written out for that range.
  \<^item> A JSON value of the tables \<^verbatim>\<open>problems.answer_json\<close> and \<^verbatim>\<open>submissions.answers_json\<close>
    is, as the schema comments say, a string or a list of lists of strings.
  \<^item> A Python exception is a value of \<open>py_error\<close>; a function that may raise returns
    \<open>py_error + 'a\<close>.
  \<^item> The database is a record of its three tables that matter here; every helper that
    opens a connection takes the record and, when it writes, returns the new one.
  \<^item> A Python \<^verbatim>\<open>float\<close> percentage is an exact rational.
\<close>

subsection \<open>Python strings\<close>

datatype py_error = ZeroDivisionError | KeyError

text \<open>
  \<^verbatim>\<open>str.isspace\<close> on one character, as used by \<^verbatim>\<open>str.strip()\<close>: the ASCII white space
  TAB, LF, VT, FF, CR, FS, GS, RS, US and SPACE, and NEL (U+0085) and NBSP (U+00A0).
\<close>

definition py_isspace :: "char \<Rightarrow> bool" where
  "py_isspace c = ((of_char c :: nat) \<in> {9, 10, 11, 12, 13, 28, 29, 30, 31, 32, 133, 160})"

text \<open>\<^verbatim>\<open>s.strip()\<close>: drop white space from both ends.\<close>

definition py_strip :: "string \<Rightarrow> string" where
  "py_strip s = rev (dropWhile py_isspace (rev (dropWhile py_isspace s)))"

text \<open>
  \<^verbatim>\<open>str.lower\<close> on one character: A-Z, and the Latin-1 capitals U+00C0 .. U+00DE without
  the multiplication sign U+00D7, move up by 32; every other character stays.
\<close>

definition py_lower_char :: "char \<Rightarrow> char" where
  "py_lower_char c =
     (let n = (of_char c :: nat)
      in if (65 \<le> n \<and> n \<le> 90) \<or> (192 \<le> n \<and> n \<le> 222 \<and> n \<noteq> 215)
         then char_of (n + 32) else c)"

definition py_lower :: "string \<Rightarrow> string" where
  "py_lower s = map py_lower_char s"



subsection \<open>Answer checking (\<^verbatim>\<open>normalize_scalar\<close>, \<^verbatim>\<open>check_single\<close>, \<^verbatim>\<open>check_table\<close>)\<close>

text \<open>
  \<^verbatim>\<open>def normalize_scalar(x): return (x or "").strip().lower()\<close>

  The argument is a string or \<^verbatim>\<open>None\<close>; \<^verbatim>\<open>x or ""\<close> replaces \<^verbatim>\<open>None\<close> (and the empty
  string) by the empty string.
\<close>

definition normalize_scalar :: "string option \<Rightarrow> string" where
  "normalize_scalar x = py_lower (py_strip (case x of None \<Rightarrow> [] | Some s \<Rightarrow> s))"

definition check_single :: "string \<Rightarrow> string \<Rightarrow> bool" where
  "check_single user_ans correct_ans =
     (normalize_scalar (Some user_ans) = normalize_scalar (Some correct_ans))"


text \<open>
  \<^verbatim>\<open>check_table(user_tab, correct_tab)\<close> returns \<^verbatim>\<open>False\<close> from inside two nested \<^verbatim>\<open>for\<close>
  loops over \<^verbatim>\<open>range(len(...))\<close>. Each loop is a recursive function on its index. Every
  index read is below a length that was compared just before (\<^verbatim>\<open>len(user_tab)\<close> with
  \<^verbatim>\<open>len(correct_tab)\<close>, \<^verbatim>\<open>len(user_tab[r])\<close> with \<^verbatim>\<open>len(correct_tab[r])\<close>), so no
  \<^verbatim>\<open>IndexError\<close> branch exists. The cells are strings, on which \<^verbatim>\<open>str\<close> is the identity.

  Besides the source's result the loops carry \<open>n\<close>, the number of cell comparisons
  (line 304) executed so far; the source does not compute it. It makes the order of the
  checks a value one can state theorems about.
\<close>

function cell_loop :: "string list \<Rightarrow> string list \<Rightarrow> nat \<Rightarrow> nat \<Rightarrow> bool \<times> nat" where
  "cell_loop user_row correct_row c n =
     (if c < length correct_row
      then (if normalize_scalar (Some (user_row ! c)) \<noteq> normalize_scalar (Some (correct_row ! c))
            then (False, n + 1)
            else cell_loop user_row correct_row (c + 1) (n + 1))
      else (True, n))"
  by pat_completeness auto
termination
  by (relation "measure (\<lambda>(user_row, correct_row, c, n). length correct_row - c)") auto

function row_loop :: "string list list \<Rightarrow> string list list \<Rightarrow> nat \<Rightarrow> nat \<Rightarrow> bool \<times> nat" where
  "row_loop user_tab correct_tab r n =
     (if r < length correct_tab
      then (if length (user_tab ! r) \<noteq> length (correct_tab ! r)
            then (False, n)
            else (case cell_loop (user_tab ! r) (correct_tab ! r) 0 n of
                    (False, n') \<Rightarrow> (False, n')
                  | (True, n') \<Rightarrow> row_loop user_tab correct_tab (r + 1) n'))
      else (True, n))"
  by pat_completeness auto
termination
  by (relation "measure (\<lambda>(user_tab, correct_tab, r, n). length correct_tab - r)") auto

declare cell_loop.simps [simp del] row_loop.simps [simp del]

definition check_table_run :: "string list list \<Rightarrow> string list list \<Rightarrow> bool \<times> nat" where
  "check_table_run user_tab correct_tab =
     (if length user_tab \<noteq> length correct_tab then (False, 0)
      else row_loop user_tab correct_tab 0 0)"

definition check_table :: "string list list \<Rightarrow> string list list \<Rightarrow> bool" where
  "check_table user_tab correct_tab = fst (check_table_run user_tab correct_tab)"

definition cell_comparisons :: "string list list \<Rightarrow> string list list \<Rightarrow> nat" where
  "cell_comparisons user_tab correct_tab = snd (check_table_run user_tab correct_tab)"

subsection \<open>Stored values and Python's \<^verbatim>\<open>str\<close>\<close>

text \<open>
  An answer key or a submitted answer, decoded from JSON: \<^verbatim>\<open>-- JSON: string or [[...]]\<close>.
\<close>

datatype jvalue = JStr string | JTab "string list list"

text \<open>
  \<^verbatim>\<open>sep.join(xs)\<close>.
\<close>

fun py_join :: "string \<Rightarrow> string list \<Rightarrow> string" where
  "py_join sep [] = []"
| "py_join sep [x] = x"
| "py_join sep (x # y # ys) = x @ sep @ py_join sep (y # ys)"

text \<open>
  \<^verbatim>\<open>repr\<close> of a string: the quote is the double quote when the string has a single quote
  and no double quote, the single quote otherwise; the quote and the backslash get a
  backslash, TAB, LF and CR their letter, every other non-printable character
  (controls, DEL, U+0080 .. U+00A0, the soft hyphen U+00AD) its two hex digits.
\<close>

definition py_isprintable :: "char \<Rightarrow> bool" where
  "py_isprintable c =
     (let n = (of_char c :: nat) in (32 \<le> n \<and> n < 127) \<or> (161 \<le> n \<and> n \<noteq> 173))"

definition hexdigit :: "nat \<Rightarrow> char" where
  "hexdigit d = ''0123456789abcdef'' ! (d mod 16)"

definition repr_char :: "char \<Rightarrow> char \<Rightarrow> string" where
  "repr_char quote c =
     (if c = quote \<or> c = CHR 0x5C then [CHR 0x5C, c]
      else if c = CHR 0x09 then [CHR 0x5C, CHR ''t'']
      else if c = CHR 0x0A then [CHR 0x5C, CHR ''n'']
      else if c = CHR 0x0D then [CHR 0x5C, CHR ''r'']
      else if \<not> py_isprintable c
        then [CHR 0x5C, CHR ''x'', hexdigit (of_char c div 16), hexdigit (of_char c mod 16)]
      else [c])"

definition py_repr_str :: "string \<Rightarrow> string" where
  "py_repr_str s =
     (let quote = (if CHR 0x27 \<in> set s \<and> CHR 0x22 \<notin> set s then CHR 0x22 else CHR 0x27)
      in [quote] @ concat (map (repr_char quote) s) @ [quote])"

definition py_repr_row :: "string list \<Rightarrow> string" where
  "py_repr_row row = ''['' @ py_join '', '' (map py_repr_str row) @ '']''"

text \<open>
  \<^verbatim>\<open>str(v)\<close>: a string is itself, a list of lists prints as its \<^verbatim>\<open>repr\<close>.
\<close>

fun py_str :: "jvalue \<Rightarrow> string" where
  "py_str (JStr s) = s"
| "py_str (JTab g) = ''['' @ py_join '', '' (map py_repr_row g) @ '']''"

text \<open>
  \<^verbatim>\<open>check_table\<close> only takes \<^verbatim>\<open>len(t)\<close>, \<^verbatim>\<open>len(t[r])\<close> and \<^verbatim>\<open>t[r][c]\<close> of its arguments.
  On a Python string these are defined as well: \<^verbatim>\<open>s[r]\<close> is the one-character string,
  its length is 1 and its element 0 is itself. So a string behaves there as the table
  of its characters, one cell a row.
\<close>

fun as_table :: "jvalue \<Rightarrow> string list list" where
  "as_table (JTab g) = g"
| "as_table (JStr s) = map (\<lambda>c. [[c]]) s"

subsection \<open>The database\<close>

text \<open>
  A row of \<^verbatim>\<open>problems\<close> (keyed by its \<^verbatim>\<open>id\<close>, the primary key), a row of \<^verbatim>\<open>papers\<close> (keyed
  by its \<^verbatim>\<open>id\<close>) and a row of \<^verbatim>\<open>submissions\<close>, with the JSON columns decoded. The columns
  \<^verbatim>\<open>created_by\<close> and the \<^verbatim>\<open>AUTOINCREMENT\<close> id of a submission are read by none of the
  functions below and are left out.
\<close>

record problem_row =
  row_content :: string
  row_answer_type :: string
  row_answer :: jvalue
  row_updated_at :: string

record paper_row =
  row_title :: string
  row_problem_ids :: "string list"
  row_mode :: string
  row_show_problem_ids :: int
  row_created_at :: string

record submission =
  sub_paper_id :: int
  sub_pupil_id :: int
  sub_answers :: "string \<rightharpoonup> jvalue"
  sub_score :: rat
  sub_attempt_no :: int
  submitted_at :: string

record db =
  problems :: "string \<rightharpoonup> problem_row"
  papers :: "int \<rightharpoonup> paper_row"
  submissions :: "submission list"

text \<open>The dictionaries that \<^verbatim>\<open>get_problem\<close> and \<^verbatim>\<open>get_paper\<close> build from a row.\<close>

record problem =
  prob_id :: string
  content :: string
  answer_type :: string
  answer :: jvalue
  updated_at :: string

record paper =
  pap_id :: int
  title :: string
  problem_ids :: "string list"
  mode :: string
  show_problem_ids :: bool
  created_at :: string

definition get_problem :: "db \<Rightarrow> string \<Rightarrow> problem option" where
  "get_problem d pid =
     (case problems d pid of
        None \<Rightarrow> None
      | Some row \<Rightarrow>
          Some \<lparr>prob_id = pid, content = row_content row, answer_type = row_answer_type row,
                answer = row_answer row, updated_at = row_updated_at row\<rparr>)"




subsection \<open>Attempt policy\<close>

definition attempts_remaining :: "string \<Rightarrow> int \<Rightarrow> int option" where
  "attempts_remaining m attempts_so_far =
     (if m = ''training'' then None
      else let limit = (if m = ''test1'' then 1 else 2)
           in Some (max 0 (limit - attempts_so_far)))"

text \<open>
  The gate of \<^verbatim>\<open>page_pupil_paper\<close> (lines 555 to 560): the message of the \<^verbatim>\<open>st.error\<close> after
  which the page returns, or \<open>None\<close> when the page goes on to score.
\<close>

definition enforce_mode_rules :: "string \<Rightarrow> int \<Rightarrow> string option" where
  "enforce_mode_rules m attempts_so_far =
     (if m = ''test1'' \<and> attempts_so_far \<ge> 1
        then Some ''Test mode-1 allows only one attempt.''
      else if m = ''test2'' \<and> attempts_so_far \<ge> 2
        then Some ''Test mode-2 allows only two attempts.''
      else None)"

definition may_attempt :: "string \<Rightarrow> int \<Rightarrow> bool" where
  "may_attempt m attempts_so_far = (enforce_mode_rules m attempts_so_far = None)"

subsection \<open>\<^verbatim>\<open>auto_score\<close>\<close>

text \<open>
  The test of one problem (lines 317 to 320). \<^verbatim>\<open>user_answers.get(pid, "")\<close> and
  \<^verbatim>\<open>user_answers.get(pid, [])\<close> put the default in the place of a missing key.
\<close>

definition answer_ok :: "problem \<Rightarrow> string \<Rightarrow> (string \<rightharpoonup> jvalue) \<Rightarrow> bool" where
  "answer_ok prob pid user_answers =
     (if answer_type prob = ''single''
      then check_single (py_str (case user_answers pid of None \<Rightarrow> JStr [] | Some v \<Rightarrow> v))
                        (py_str (answer prob))
      else check_table (as_table (case user_answers pid of None \<Rightarrow> JTab [] | Some v \<Rightarrow> v))
                       (as_table (answer prob)))"

text \<open>
  The loop of \<^verbatim>\<open>auto_score\<close> over \<^verbatim>\<open>problem_ids\<close>, with its two variables \<^verbatim>\<open>results\<close> and
  \<^verbatim>\<open>correct_count\<close>.
\<close>

fun score_loop ::
  "db \<Rightarrow> (string \<rightharpoonup> jvalue) \<Rightarrow> string list \<Rightarrow> (string \<rightharpoonup> bool) \<Rightarrow> nat
     \<Rightarrow> (string \<rightharpoonup> bool) \<times> nat" where
  "score_loop d user_answers [] results correct_count = (results, correct_count)"
| "score_loop d user_answers (pid # pids) results correct_count =
     (case get_problem d pid of
        None \<Rightarrow> score_loop d user_answers pids (results(pid \<mapsto> False)) correct_count
      | Some prob \<Rightarrow>
          (let ok = answer_ok prob pid user_answers
           in score_loop d user_answers pids (results(pid \<mapsto> ok))
                (if ok then correct_count + 1 else correct_count)))"

text \<open>\<^verbatim>\<open>a / b\<close> on numbers raises \<^verbatim>\<open>ZeroDivisionError\<close> when \<^verbatim>\<open>b\<close> is zero.\<close>

definition py_truediv :: "rat \<Rightarrow> rat \<Rightarrow> py_error + rat" where
  "py_truediv a b = (if b = 0 then Inl ZeroDivisionError else Inr (a / b))"

definition auto_score ::
  "db \<Rightarrow> string list \<Rightarrow> (string \<rightharpoonup> jvalue) \<Rightarrow> py_error + (rat \<times> (string \<rightharpoonup> bool))" where
  "auto_score d pids user_answers =
     (case score_loop d user_answers pids Map.empty 0 of
        (results, correct_count) \<Rightarrow>
          (case py_truediv (100 * of_nat correct_count) (of_nat (max 1 (length pids))) of
             Inl e \<Rightarrow> Inl e
           | Inr pct \<Rightarrow> Inr (pct, results)))"

subsection \<open>The page \<^verbatim>\<open>page_pupil_paper\<close>\<close>

text \<open>
  What a run of the page draws is the list of its Streamlit calls, in order. The two
  \<^verbatim>\<open>st.write\<close> lines of the feedback carry a check mark or a cross outside U+0000 .. U+00FF;
  they are the elements \<open>St_correctness\<close> (training: mark and the word Correct or
  Incorrect) and \<open>St_mark\<close> (test modes: the mark alone), with the problem id and the
  flag. \<open>St_score\<close> is the subheader \<^verbatim>\<open>Your Score: ...%\<close>, \<open>St_code_json v\<close> is
  \<^verbatim>\<open>st.code(json.dumps(v, ensure_ascii=False, indent=2))\<close>, \<open>St_answer_input pid\<close>
  stands for the input widgets that \<^verbatim>\<open>input_for_answer\<close> draws for a problem, and
  \<open>St_button\<close> is the button \<^verbatim>\<open>Submit Paper\<close>.
\<close>

datatype ui =
    St_error string
  | St_warning string
  | St_subheader string
  | St_caption string
  | St_info string
  | St_success string
  | St_markdown string
  | St_expander string
  | St_answer_input string
  | St_button string
  | St_score rat
  | St_correctness string bool
  | St_mark string bool
  | St_code string
  | St_code_json jvalue





text \<open>\<^verbatim>\<open>per_problem[p['id']]\<close> raises \<^verbatim>\<open>KeyError\<close> on a key that is not there.\<close>

definition subscript :: "(string \<rightharpoonup> bool) \<Rightarrow> string \<Rightarrow> py_error + bool" where
  "subscript per_problem k = (case per_problem k of None \<Rightarrow> Inl KeyError | Some b \<Rightarrow> Inr b)"

text \<open>The loop of the training feedback (lines 571 to 573).\<close>

fun training_loop :: "problem option list \<Rightarrow> (string \<rightharpoonup> bool) \<Rightarrow> py_error + ui list" where
  "training_loop [] per_problem = Inr []"
| "training_loop (None # ps) per_problem = training_loop ps per_problem"
| "training_loop (Some p # ps) per_problem =
     (case subscript per_problem (prob_id p) of
        Inl e \<Rightarrow> Inl e
      | Inr ok \<Rightarrow>
          (case training_loop ps per_problem of
             Inl e \<Rightarrow> Inl e
           | Inr rest \<Rightarrow> Inr (St_correctness (prob_id p) ok # rest)))"

text \<open>
  The loop that reveals the answers; the source has it twice with the same text, for
  test1 (lines 576 to 583) and for the last attempt of test2 (lines 594 to 601).
\<close>

definition answer_code :: "problem \<Rightarrow> ui" where
  "answer_code p =
     (if answer_type p = ''single'' then St_code (py_str (answer p)) else St_code_json (answer p))"

fun reveal_loop :: "problem option list \<Rightarrow> (string \<rightharpoonup> bool) \<Rightarrow> py_error + ui list" where
  "reveal_loop [] per_problem = Inr []"
| "reveal_loop (None # ps) per_problem = reveal_loop ps per_problem"
| "reveal_loop (Some p # ps) per_problem =
     (case subscript per_problem (prob_id p) of
        Inl e \<Rightarrow> Inl e
      | Inr ok \<Rightarrow>
          (case reveal_loop ps per_problem of
             Inl e \<Rightarrow> Inl e
           | Inr rest \<Rightarrow>
               Inr ([St_mark (prob_id p) ok, St_caption ''Correct answer:'', answer_code p] @ rest)))"

text \<open>\<^verbatim>\<open>wrong = [p['id'] for p in problems if p and not per_problem[p['id']]]\<close>\<close>

fun wrong_ids :: "problem option list \<Rightarrow> (string \<rightharpoonup> bool) \<Rightarrow> py_error + string list" where
  "wrong_ids [] per_problem = Inr []"
| "wrong_ids (None # ps) per_problem = wrong_ids ps per_problem"
| "wrong_ids (Some p # ps) per_problem =
     (case subscript per_problem (prob_id p) of
        Inl e \<Rightarrow> Inl e
      | Inr ok \<Rightarrow>
          (case wrong_ids ps per_problem of
             Inl e \<Rightarrow> Inl e
           | Inr rest \<Rightarrow> Inr (if \<not> ok then prob_id p # rest else rest)))"

text \<open>The feedback of lines 569 to 601, by mode and number of the attempt.\<close>

definition feedback ::
  "string \<Rightarrow> int \<Rightarrow> problem option list \<Rightarrow> (string \<rightharpoonup> bool) \<Rightarrow> py_error + ui list" where
  "feedback m attempt ps per_problem =
     (if m = ''training'' then
        (case training_loop ps per_problem of
           Inl e \<Rightarrow> Inl e
         | Inr es \<Rightarrow>
             Inr (St_info ''Training mode: see per-problem correctness below. You can try again anytime.''
                  # es))
      else if m = ''test1'' then
        (case reveal_loop ps per_problem of
           Inl e \<Rightarrow> Inl e
         | Inr es \<Rightarrow>
             Inr (St_info ''Test mode-1: one attempt. Correct answers are revealed now.'' # es))
      else if attempt = 1 then
        (case wrong_ids ps per_problem of
           Inl e \<Rightarrow> Inl e
         | Inr wrong \<Rightarrow>
             Inr [St_info ''Test mode-2: you have one more attempt. Incorrect questions shown below.'',
                  if wrong \<noteq> [] then St_error (''You got these wrong: '' @ py_join '', '' wrong)
                  else St_success ''All correct!''])
      else
        (case reveal_loop ps per_problem of
           Inl e \<Rightarrow> Inl e
         | Inr es \<Rightarrow>
             Inr (St_info ''Test mode-2: Final results. Correct answers revealed.'' # es)))"

text \<open>
  The page from line 525 on: \<open>user_id\<close> is the signed-in pupil's id and \<open>paper_id\<close> the
  number typed (lines 512 to 523 are the sign-in check and \<^verbatim>\<open>int(pid)\<close>), \<open>submitted\<close> is
  the value of the button. The result is the database after the run and what was
  drawn, or the exception that ended the run.
\<close>

text \<open>\<^verbatim>\<open>[p for p in problems if p]\<close>: the problems that were found.\<close>

definition resolved :: "problem option list \<Rightarrow> problem list" where
  "resolved ps = concat (map (\<lambda>p. case p of None \<Rightarrow> [] | Some q \<Rightarrow> [q]) ps)"


subsection \<open>Vocabulary of the properties\<close>


text \<open>Two cells, and two rows, that are equal under the normalizer.\<close>

definition cell_eq :: "string \<Rightarrow> string \<Rightarrow> bool" where
  "cell_eq u k = (normalize_scalar (Some u) = normalize_scalar (Some k))"

definition row_eq :: "string list \<Rightarrow> string list \<Rightarrow> bool" where
  "row_eq u k = (length u = length k \<and> (\<forall>i < length k. cell_eq (u ! i) (k ! i)))"

text \<open>
  The flag that \<^verbatim>\<open>auto_score\<close> stores for an id: \<^verbatim>\<open>False\<close> for an id without a problem, the
  test of the problem otherwise.
\<close>

definition scored_ok :: "db \<Rightarrow> (string \<rightharpoonup> jvalue) \<Rightarrow> string \<Rightarrow> bool" where
  "scored_ok d user_answers pid =
     (case get_problem d pid of None \<Rightarrow> False | Some prob \<Rightarrow> answer_ok prob pid user_answers)"

text \<open>An element that shows a correct answer, and one that shows a correctness flag.\<close>

fun reveals_answer :: "ui \<Rightarrow> bool" where
  "reveals_answer (St_code s) = True"
| "reveals_answer (St_code_json v) = True"
| "reveals_answer e = False"

fun shows_correctness :: "ui \<Rightarrow> bool" where
  "shows_correctness (St_correctness pid ok) = True"
| "shows_correctness (St_mark pid ok) = True"
| "shows_correctness e = False"










subsection \<open>A small database for the concrete instances\<close>

text \<open>
  Three problems (a single answer, a table, a single answer whose key is one blank) and
  three papers: paper 1 in mode test1 over \<open>P1\<close> and \<open>T1\<close>, paper 2 in mode training over
  \<open>P1\<close> and an id \<open>GONE\<close> that has no problem, paper 3 in mode test2 over \<open>P1\<close> and \<open>T1\<close>.
  The pupil types \<^verbatim>\<open>"  Paris "\<close> into every text field and \<^verbatim>\<open>"x"\<close> into every cell of a
  2 by 2 grid.
\<close>

definition demo_problems :: "string \<rightharpoonup> problem_row" where
  "demo_problems =
     [''P1'' \<mapsto> \<lparr>row_content = ''Capital of France?'', row_answer_type = ''single'',
                 row_answer = JStr ''paris'', row_updated_at = ''2024-01-01''\<rparr>,
      ''T1'' \<mapsto> \<lparr>row_content = ''Copy the table.'', row_answer_type = ''table'',
                 row_answer = JTab [[''A'', ''B''], [''C'', ''D'']],
                 row_updated_at = ''2024-01-01''\<rparr>,
      ''E1'' \<mapsto> \<lparr>row_content = ''Leave this blank.'', row_answer_type = ''single'',
                 row_answer = JStr '' '', row_updated_at = ''2024-01-01''\<rparr>]"

definition demo_papers :: "int \<rightharpoonup> paper_row" where
  "demo_papers =
     [1 \<mapsto> \<lparr>row_title = ''Quiz'', row_problem_ids = [''P1'', ''T1''], row_mode = ''test1'',
             row_show_problem_ids = 1, row_created_at = ''2024-01-02''\<rparr>,
      2 \<mapsto> \<lparr>row_title = ''Drill'', row_problem_ids = [''P1'', ''GONE''], row_mode = ''training'',
             row_show_problem_ids = 1, row_created_at = ''2024-01-02''\<rparr>,
      3 \<mapsto> \<lparr>row_title = ''Exam'', row_problem_ids = [''P1'', ''T1''], row_mode = ''test2'',
             row_show_problem_ids = 0, row_created_at = ''2024-01-02''\<rparr>]"

definition demo_db :: db where
  "demo_db = \<lparr>problems = demo_problems, papers = demo_papers, submissions = []\<rparr>"




section \<open>Properties\<close>

subsection \<open>The normalizer\<close>











subsection \<open>The attempt policy\<close>

text \<open>
  C2. With \<open>may_attempt\<close> the condition under which the gate of the page lets a
  submission through, and \<open>attempts_remaining\<close> returning \<open>None\<close> for unlimited: training
  is always permitted and unlimited; test1 is permitted iff \<open>n < 1\<close>, with
  \<open>max 0 (1 - n)\<close> attempts left; test2 is permitted iff \<open>n < 2\<close>, with \<open>max 0 (2 - n)\<close>
  left; and the four instances the specification lists.
\<close>

theorem attempt_policy:
  "may_attempt ''training'' n \<and> attempts_remaining ''training'' n = None
   \<and> may_attempt ''test1'' n = (n < 1) \<and> attempts_remaining ''test1'' n = Some (max 0 (1 - n))
   \<and> may_attempt ''test2'' n = (n < 2) \<and> attempts_remaining ''test2'' n = Some (max 0 (2 - n))
   \<and> may_attempt ''test1'' 0 \<and> \<not> may_attempt ''test1'' 1
   \<and> attempts_remaining ''test2'' 1 = Some 1 \<and> attempts_remaining ''test2'' 2 = Some 0"
  by (simp add: may_attempt_def enforce_mode_rules_def attempts_remaining_def)

subsection \<open>The scorer\<close>

lemma score_loop_eq:
  "score_loop d ua pids results cc =
     ((\<lambda>p. if p \<in> set pids then Some (scored_ok d ua p) else results p),
      cc + length (filter (scored_ok d ua) pids))"
proof (induction pids arbitrary: results cc)
  case Nil
  then show ?case by simp
next
  case (Cons pid pids)
  show ?case
  proof (cases "get_problem d pid")
    case None
    then show ?thesis
      by (auto simp: Cons.IH scored_ok_def fun_eq_iff)
  next
    case (Some prob)
    then show ?thesis
      by (auto simp: Cons.IH scored_ok_def fun_eq_iff Let_def)
  qed
qed

lemma auto_score_eq:
  "auto_score d pids ua =
     Inr (100 * of_nat (length (filter (scored_ok d ua) pids)) / of_nat (max 1 (length pids)),
          (\<lambda>p. if p \<in> set pids then Some (scored_ok d ua p) else None))"
  by (simp add: auto_score_def score_loop_eq py_truediv_def)

text \<open>
  C5. On the empty list of ids \<^verbatim>\<open>auto_score\<close> returns the percentage 0 and the empty
  dictionary, whatever the answers are, so for the empty answers as well; and on every
  list it returns a result, never \<^verbatim>\<open>ZeroDivisionError\<close>, its divisor being
  \<^verbatim>\<open>max(1, len(problem_ids))\<close>.
\<close>

theorem auto_score_empty:
  "auto_score d [] user_answers = Inr (0, Map.empty)
   \<and> auto_score d [] Map.empty = Inr (0, Map.empty)
   \<and> (\<exists>pct results. auto_score d pids user_answers = Inr (pct, results))"
  by (simp add: auto_score_eq)

subsection \<open>Tables\<close>

lemma cell_loop_unfold:
  "cell_loop u k c n =
     (if c < length k
      then (if \<not> cell_eq (u ! c) (k ! c) then (False, n + 1) else cell_loop u k (c + 1) (n + 1))
      else (True, n))"
  by (simp add: cell_loop.simps[of u k c n] cell_eq_def)

lemma cell_loop_fst:
  "fst (cell_loop u k c n) = (\<forall>i. c \<le> i \<and> i < length k \<longrightarrow> cell_eq (u ! i) (k ! i))"
proof (induction u k c n rule: cell_loop.induct)
  case (1 u k c n)
  show ?case
  proof (cases "c < length k")
    case False
    then show ?thesis by (auto simp add: cell_loop_unfold[of u k c n])
  next
    case True
    show ?thesis
    proof (cases "cell_eq (u ! c) (k ! c)")
      case False
      with True show ?thesis
        by (auto simp: cell_loop_unfold[of u k c n])
    next
      case eq: True
      have "(\<forall>i. c \<le> i \<and> i < length k \<longrightarrow> cell_eq (u ! i) (k ! i))
          = (\<forall>i. c + 1 \<le> i \<and> i < length k \<longrightarrow> cell_eq (u ! i) (k ! i))"
        using eq by (metis Suc_eq_plus1 Suc_leI le_neq_implies_less add_leD1)
      with True eq "1.IH" show ?thesis
        by (simp add: cell_loop_unfold[of u k c n] cell_eq_def)
    qed
  qed
qed

lemma cell_loop_snd:
  "n \<le> snd (cell_loop u k c n) \<and> snd (cell_loop u k c n) \<le> n + (length k - c)"
proof (induction u k c n rule: cell_loop.induct)
  case (1 u k c n)
  show ?case
  proof (cases "c < length k \<and> cell_eq (u ! c) (k ! c)")
    case False
    then show ?thesis by (auto simp add: cell_loop_unfold[of u k c n])
  next
    case True
    with "1.IH" show ?thesis
      by (auto simp add: cell_loop_unfold[of u k c n] cell_eq_def)
  qed
qed

lemma row_loop_fst:
  "fst (row_loop u k r n) = (\<forall>j. r \<le> j \<and> j < length k \<longrightarrow> row_eq (u ! j) (k ! j))"
proof (induction u k r n rule: row_loop.induct)
  case (1 u k r n)
  show ?case
  proof (cases "r < length k")
    case False
    then show ?thesis by (auto simp add: row_loop.simps[of u k r n])
  next
    case True
    obtain b n' where cl: "cell_loop (u ! r) (k ! r) 0 n = (b, n')"
      by (cases "cell_loop (u ! r) (k ! r) 0 n")
    have b: "b = (\<forall>i < length (k ! r). cell_eq (u ! r ! i) (k ! r ! i))"
      using cell_loop_fst[of "u ! r" "k ! r" 0 n] cl by simp
    show ?thesis
    proof (cases "length (u ! r) = length (k ! r) \<and> b")
      case False
      then have "\<not> row_eq (u ! r) (k ! r)" using b by (auto simp: row_eq_def)
      with True have "\<not> (\<forall>j. r \<le> j \<and> j < length k \<longrightarrow> row_eq (u ! j) (k ! j))"
        by blast
      moreover have "\<not> fst (row_loop u k r n)"
        using True False cl by (auto simp: row_loop.simps[of u k r n])
      ultimately show ?thesis by simp
    next
      case eq: True
      then have re: "row_eq (u ! r) (k ! r)" using b by (simp add: row_eq_def)
      have "(\<forall>j. r \<le> j \<and> j < length k \<longrightarrow> row_eq (u ! j) (k ! j))
          = (\<forall>j. r + 1 \<le> j \<and> j < length k \<longrightarrow> row_eq (u ! j) (k ! j))"
        using re by (metis Suc_eq_plus1 Suc_leI le_neq_implies_less add_leD1)
      moreover have "fst (row_loop u k r n) = fst (row_loop u k (r + 1) n')"
        using True eq cl by (simp add: row_loop.simps[of u k r n])
      moreover have "fst (row_loop u k (r + 1) n')
          = (\<forall>j. r + 1 \<le> j \<and> j < length k \<longrightarrow> row_eq (u ! j) (k ! j))"
        using "1.IH"[of b n'] True eq cl by simp
      ultimately show ?thesis by simp
    qed
  qed
qed

lemma row_loop_snd:
  assumes "r \<le> j" "j < length k" "length (u ! j) \<noteq> length (k ! j)"
  shows "snd (row_loop u k r n) \<le> n + sum_list (map length (drop r (take j k)))"
  using assms
proof (induction u k r n rule: row_loop.induct)
  case (1 u k r n)
  from "1.prems" have rk: "r < length k" by simp
  show ?case
  proof (cases "length (u ! r) \<noteq> length (k ! r)")
    case True
    with rk show ?thesis by (simp add: row_loop.simps[of u k r n])
  next
    case False
    with "1.prems" have rj: "r < j" by (metis le_neq_implies_less)
    then have dr: "drop r (take j k) = k ! r # drop (r + 1) (take j k)"
      using "1.prems"(2) by (simp add: Cons_nth_drop_Suc[symmetric])
    obtain b n' where cl: "cell_loop (u ! r) (k ! r) 0 n = (b, n')" by (cases "cell_loop (u ! r) (k ! r) 0 n")
    have n': "n' \<le> n + length (k ! r)"
      using cell_loop_snd[of n "u ! r" "k ! r" 0] cl by simp
    show ?thesis
    proof (cases b)
      case False
      with cl rk \<open>\<not> length (u ! r) \<noteq> length (k ! r)\<close> n' show ?thesis
        by (simp add: row_loop.simps[of u k r n] dr)
    next
      case True
      have "snd (row_loop u k (r + 1) n') \<le> n' + sum_list (map length (drop (r + 1) (take j k)))"
        using "1.IH"[of b n'] rk False cl True rj "1.prems" by simp
      with cl rk \<open>\<not> length (u ! r) \<noteq> length (k ! r)\<close> n' True show ?thesis
        by (simp add: row_loop.simps[of u k r n] dr)
    qed
  qed
qed

text \<open>
  C7, as the code has it. The answer is correct iff the two tables have the same number
  of rows, every row has the length of the key's row, and every cell equals the key's
  cell under the normalizer. When the numbers of rows differ no cell is compared. The
  rows are visited in order, the length of a row being compared just before its cells:
  when row \<open>r\<close> has the wrong length, the cells compared are cells of the rows before
  \<open>r\<close>, at most all of them.
\<close>

theorem check_table_rows_in_order:
  "check_table user_tab correct_tab =
     (length user_tab = length correct_tab
      \<and> (\<forall>r < length correct_tab.
           length (user_tab ! r) = length (correct_tab ! r)
           \<and> (\<forall>c < length (correct_tab ! r).
                normalize_scalar (Some (user_tab ! r ! c))
                  = normalize_scalar (Some (correct_tab ! r ! c)))))
   \<and> (length user_tab \<noteq> length correct_tab \<longrightarrow> cell_comparisons user_tab correct_tab = 0)
   \<and> (\<forall>r < length correct_tab.
         length user_tab = length correct_tab \<and> length (user_tab ! r) \<noteq> length (correct_tab ! r)
         \<longrightarrow> cell_comparisons user_tab correct_tab \<le> sum_list (map length (take r correct_tab)))"
proof (intro conjI allI impI)
  show "check_table user_tab correct_tab =
     (length user_tab = length correct_tab
      \<and> (\<forall>r < length correct_tab.
           length (user_tab ! r) = length (correct_tab ! r)
           \<and> (\<forall>c < length (correct_tab ! r).
                normalize_scalar (Some (user_tab ! r ! c))
                  = normalize_scalar (Some (correct_tab ! r ! c)))))"
    by (simp add: check_table_def check_table_run_def row_loop_fst row_eq_def cell_eq_def)
  show "cell_comparisons user_tab correct_tab = 0" if "length user_tab \<noteq> length correct_tab"
    using that by (simp add: cell_comparisons_def check_table_run_def)
  show "cell_comparisons user_tab correct_tab \<le> sum_list (map length (take r correct_tab))"
    if "r < length correct_tab"
      "length user_tab = length correct_tab \<and> length (user_tab ! r) \<noteq> length (correct_tab ! r)"
    for r
    using that row_loop_snd[of 0 r correct_tab user_tab 0]
    by (simp add: cell_comparisons_def check_table_run_def)
qed

theorem check_table_rows_in_order_witness:
  "check_table [[''a'', ''b''], [''c'', ''d'']] [[''A'', ''B''], [''C'', ''D'']]
   \<and> \<not> check_table [[''a'', ''b'']] [[''A'', ''B''], [''C'', ''D'']]
   \<and> cell_comparisons [[''a'', ''b'']] [[''A'', ''B''], [''C'', ''D'']] = 0
   \<and> \<not> check_table [[''a'', ''b''], [''c'']] [[''A'', ''B''], [''C'', ''D'']]
   \<and> cell_comparisons [[''a'', ''b''], [''c'']] [[''A'', ''B''], [''C'', ''D'']] \<le> 2"
proof -
  let ?K = "[[''A'', ''B''], [''C'', ''D'']]"
  have 1: "check_table [[''a'', ''b''], [''c'', ''d'']] ?K"
    by code_simp
  have 2: "\<not> check_table [[''a'', ''b'']] ?K \<and> cell_comparisons [[''a'', ''b'']] ?K = 0"
    using check_table_rows_in_order [of "[[''a'', ''b'']]" ?K]
    by simp
  have "\<forall>r < length ?K.
         length [[''a'', ''b''], [''c'']] = length ?K
         \<and> length ([[''a'', ''b''], [''c'']] ! r) \<noteq> length (?K ! r)
         \<longrightarrow> cell_comparisons [[''a'', ''b''], [''c'']] ?K \<le> sum_list (map length (take r ?K))"
    using check_table_rows_in_order [of "[[''a'', ''b''], [''c'']]" ?K] by blast
  then have 3: "cell_comparisons [[''a'', ''b''], [''c'']] ?K \<le> 2"
    by (elim allE[of _ 1]) simp
  have 4: "\<not> check_table [[''a'', ''b''], [''c'']] ?K"
    by code_simp
  from 1 2 3 4 show ?thesis by blast
qed

text \<open>
  C7 as stated fails where a later row has the wrong length: the key has two rows of two
  cells, the answer a first row of two cells and a second row of one. The answer is
  incorrect, and the two cells of the first row have been compared before the length of
  the second row was looked at.
\<close>

theorem check_table_counterexample:
  "length ([[''a'', ''b''], [''c'']] ! 1) \<noteq> length ([[''A'', ''B''], [''C'', ''D'']] ! 1)
   \<and> check_table_run [[''a'', ''b''], [''c'']] [[''A'', ''B''], [''C'', ''D'']] = (False, 2)"
  by code_simp

subsection \<open>Order of the ids, and blank keys\<close>

lemma demo_scored:
  "scored_ok demo_db [''P1'' \<mapsto> JStr ''PARIS''] ''P1''"
  "\<not> scored_ok demo_db [''P1'' \<mapsto> JStr ''PARIS''] ''T1''"
  by code_simp+

text \<open>
  C8. Two lists of ids with the same elements the same number of times, in any order,
  get the same percentage and the same dictionary of flags from \<^verbatim>\<open>auto_score\<close>, for every
  database and every dictionary of answers.
\<close>

theorem auto_score_order_independent:
  assumes "mset pids = mset pids'"
  shows "auto_score d pids user_answers = auto_score d pids' user_answers"
proof -
  from assms have s: "set pids = set pids'" by (rule mset_eq_setD)
  from assms have l: "length pids = length pids'" by (rule mset_eq_length)
  from assms have "mset (filter (scored_ok d user_answers) pids)
      = mset (filter (scored_ok d user_answers) pids')"
    by simp
  then have f: "length (filter (scored_ok d user_answers) pids)
      = length (filter (scored_ok d user_answers) pids')"
    by (rule mset_eq_length)
  show ?thesis by (simp only: auto_score_eq s l f)
qed

theorem auto_score_order_independent_witness:
  "mset [''P1'', ''T1'', ''P1''] = mset [''P1'', ''P1'', ''T1'']
   \<and> auto_score demo_db [''P1'', ''T1'', ''P1''] [''P1'' \<mapsto> JStr ''PARIS'']
       = auto_score demo_db [''P1'', ''P1'', ''T1''] [''P1'' \<mapsto> JStr ''PARIS'']
   \<and> (case auto_score demo_db [''P1'', ''P1'', ''T1''] [''P1'' \<mapsto> JStr ''PARIS''] of
        Inl e \<Rightarrow> False
      | Inr (pct, results) \<Rightarrow> pct = 200 / 3 \<and> results ''P1'' = Some True \<and> results ''T1'' = Some False)"
proof -
  have m: "mset [''P1'', ''T1'', ''P1''] = mset [''P1'', ''P1'', ''T1'']"
    by simp
  have v: "(case auto_score demo_db [''P1'', ''P1'', ''T1''] [''P1'' \<mapsto> JStr ''PARIS''] of
        Inl e \<Rightarrow> False
      | Inr (pct, results) \<Rightarrow> pct = 200 / 3 \<and> results ''P1'' = Some True \<and> results ''T1'' = Some False)"
    by (simp add: auto_score_eq demo_scored)
  from auto_score_order_independent [OF m, of demo_db "[''P1'' \<mapsto> JStr ''PARIS'']"] m v
  show ?thesis by simp
qed

lemma normalize_blank:
  assumes "\<forall>c \<in> set s. py_isspace c"
  shows "normalize_scalar (Some s) = []"
proof -
  from assms have "dropWhile py_isspace s = []" by simp
  then have "py_strip s = []" by (simp only: py_strip_def) simp
  then show ?thesis by (simp only: normalize_scalar_def option.case) (simp add: py_lower_def)
qed

text \<open>
  C10. Let a problem of type single have a key that normalizes to the empty string.
  When the answers have no entry for it, or a string of white space only, its test is
  true: \<^verbatim>\<open>auto_score\<close> on the problem alone returns 100 and the flag true, and in any list
  with its id the flag of the id is true.
\<close>

theorem blank_key_accepts_blank_answer:
  assumes "get_problem d pid = Some prob"
    and "answer_type prob = ''single''"
    and "answer prob = JStr key"
    and "normalize_scalar (Some key) = []"
    and "user_answers pid = None
         \<or> (\<exists>s. user_answers pid = Some (JStr s) \<and> (\<forall>c \<in> set s. py_isspace c))"
  shows "answer_ok prob pid user_answers
         \<and> auto_score d [pid] user_answers = Inr (100, [pid \<mapsto> True])
         \<and> (pid \<in> set pids \<longrightarrow>
              (\<exists>pct results. auto_score d pids user_answers = Inr (pct, results)
                 \<and> results pid = Some True))"
proof -
  have "normalize_scalar (Some (py_str (case user_answers pid of None \<Rightarrow> JStr [] | Some v \<Rightarrow> v))) = []"
    using assms(5) by (auto simp: normalize_blank)
  then have ok: "answer_ok prob pid user_answers"
    using assms(2,3,4) by (simp add: answer_ok_def check_single_def)
  then have sc: "scored_ok d user_answers pid"
    using assms(1) by (simp add: scored_ok_def)
  have "auto_score d [pid] user_answers = Inr (100, [pid \<mapsto> True])"
    by (auto simp: auto_score_eq sc fun_eq_iff)
  with ok sc show ?thesis by (simp add: auto_score_eq)
qed

theorem blank_key_accepts_blank_answer_witness:
  "get_problem demo_db ''E1'' \<noteq> None
   \<and> auto_score demo_db [''E1''] Map.empty = Inr (100, [''E1'' \<mapsto> True])
   \<and> auto_score demo_db [''E1''] [''E1'' \<mapsto> JStr ''   ''] = Inr (100, [''E1'' \<mapsto> True])"
proof -
  define prob where "prob = \<lparr>prob_id = ''E1'', content = ''Leave this blank.'',
     answer_type = ''single'', answer = JStr '' '', updated_at = ''2024-01-01''\<rparr>"
  have g: "get_problem demo_db ''E1'' = Some prob"
    by (simp add: get_problem_def demo_db_def demo_problems_def prob_def)
  have k: "normalize_scalar (Some '' '') = []" by code_simp
  have b: "\<forall>c \<in> set ''   ''. py_isspace c" by (simp add: py_isspace_def)
  have 1: "auto_score demo_db [''E1''] Map.empty = Inr (100, [''E1'' \<mapsto> True])"
    using blank_key_accepts_blank_answer [of demo_db "''E1''" prob "'' ''" Map.empty] g k
    by (simp add: prob_def)
  have 2: "auto_score demo_db [''E1''] [''E1'' \<mapsto> JStr ''   ''] = Inr (100, [''E1'' \<mapsto> True])"
    using blank_key_accepts_blank_answer [of demo_db "''E1''" prob "'' ''" "[''E1'' \<mapsto> JStr ''   '']"] g k b
    by (simp add: prob_def)
  from g 1 2 show ?thesis by simp
qed

subsection \<open>Feedback\<close>

lemma resolved_simps [simp]:
  "resolved [] = []"
  "resolved (None # ps) = resolved ps"
  "resolved (Some p # ps) = p # resolved ps"
  by (simp_all add: resolved_def)

lemma training_loop_shape:
  "training_loop ps per_problem = Inr es \<Longrightarrow> \<forall>e \<in> set es. \<exists>pid ok. e = St_correctness pid ok"
proof (induction ps per_problem arbitrary: es rule: training_loop.induct)
  case (1 per_problem)
  then show ?case by simp
next
  case (2 ps per_problem)
  then show ?case by simp
next
  case (3 p ps per_problem)
  then show ?case by (auto split: sum.splits)
qed

lemma training_loop_eq:
  "\<forall>p \<in> set (resolved ps). per_problem (prob_id p) \<noteq> None \<Longrightarrow>
   training_loop ps per_problem =
     Inr (map (\<lambda>p. St_correctness (prob_id p) (the (per_problem (prob_id p)))) (resolved ps))"
  by (induction ps per_problem rule: training_loop.induct) (auto simp: subscript_def)

lemma reveal_loop_eq:
  "\<forall>p \<in> set (resolved ps). per_problem (prob_id p) \<noteq> None \<Longrightarrow>
   reveal_loop ps per_problem =
     Inr (concat (map (\<lambda>p. [St_mark (prob_id p) (the (per_problem (prob_id p))),
                              St_caption ''Correct answer:'', answer_code p]) (resolved ps)))"
  by (induction ps per_problem rule: reveal_loop.induct) (auto simp: subscript_def)

lemma wrong_ids_eq:
  "\<forall>p \<in> set (resolved ps). per_problem (prob_id p) \<noteq> None \<Longrightarrow>
   wrong_ids ps per_problem =
     Inr (map prob_id (filter (\<lambda>p. per_problem (prob_id p) = Some False) (resolved ps)))"
  by (induction ps per_problem rule: wrong_ids.induct) (auto simp: subscript_def)

lemma reveals_answer_code: "reveals_answer (answer_code p)"
  by (simp add: answer_code_def)

text \<open>
  C4. What the feedback shows depends on the mode and the number of the attempt, as
  follows, for every list of problems and every dictionary of flags. In mode training,
  at every attempt, no element shows an answer; in mode test2 at attempt 1 no element
  shows an answer or a flag. When the dictionary has a flag for every problem of the
  list (it has, after \<^verbatim>\<open>auto_score\<close>), the feedback is: in training, at every attempt, the
  flag of each problem; in test2 at attempt 1 the list of the ids whose flag is false,
  or the message that all are correct; in test2 at any other attempt, for each problem
  its flag and the element that shows its answer.
\<close>

theorem feedback_disclosure:
  "(\<forall>es. feedback ''training'' attempt ps per_problem = Inr es
          \<longrightarrow> (\<forall>e \<in> set es. \<not> reveals_answer e))
   \<and> (\<forall>es. feedback ''test2'' 1 ps per_problem = Inr es
          \<longrightarrow> (\<forall>e \<in> set es. \<not> reveals_answer e \<and> \<not> shows_correctness e))
   \<and> ((\<forall>p \<in> set (resolved ps). per_problem (prob_id p) \<noteq> None) \<longrightarrow>
        feedback ''training'' attempt ps per_problem =
          Inr (St_info ''Training mode: see per-problem correctness below. You can try again anytime.''
               # map (\<lambda>p. St_correctness (prob_id p) (the (per_problem (prob_id p)))) (resolved ps))
        \<and> feedback ''test2'' 1 ps per_problem =
          Inr [St_info ''Test mode-2: you have one more attempt. Incorrect questions shown below.'',
               if filter (\<lambda>p. per_problem (prob_id p) = Some False) (resolved ps) \<noteq> []
               then St_error (''You got these wrong: '' @ py_join '', ''
                      (map prob_id (filter (\<lambda>p. per_problem (prob_id p) = Some False) (resolved ps))))
               else St_success ''All correct!'']
        \<and> (attempt \<noteq> 1 \<longrightarrow>
             feedback ''test2'' attempt ps per_problem =
               Inr (St_info ''Test mode-2: Final results. Correct answers revealed.''
                    # concat (map (\<lambda>p. [St_mark (prob_id p) (the (per_problem (prob_id p))),
                                          St_caption ''Correct answer:'', answer_code p])
                                  (resolved ps)))))
   \<and> reveals_answer (answer_code p)"
proof (intro conjI allI impI)
  fix es
  assume "feedback ''training'' attempt ps per_problem = Inr es"
  then obtain es' where "training_loop ps per_problem = Inr es'" and es: "es = St_info ''Training mode: see per-problem correctness below. You can try again anytime.'' # es'"
    by (auto simp: feedback_def split: sum.splits)
  from training_loop_shape[OF this(1)] es show "\<forall>e \<in> set es. \<not> reveals_answer e"
    by auto
next
  fix es
  assume "feedback ''test2'' 1 ps per_problem = Inr es"
  then show "\<forall>e \<in> set es. \<not> reveals_answer e \<and> \<not> shows_correctness e"
    by (auto simp: feedback_def split: sum.splits if_splits)
next
  assume k: "\<forall>p \<in> set (resolved ps). per_problem (prob_id p) \<noteq> None"
  show "feedback ''training'' attempt ps per_problem =
          Inr (St_info ''Training mode: see per-problem correctness below. You can try again anytime.''
               # map (\<lambda>p. St_correctness (prob_id p) (the (per_problem (prob_id p)))) (resolved ps))"
    by (simp add: feedback_def training_loop_eq[OF k])
  show "feedback ''test2'' 1 ps per_problem =
          Inr [St_info ''Test mode-2: you have one more attempt. Incorrect questions shown below.'',
               if filter (\<lambda>p. per_problem (prob_id p) = Some False) (resolved ps) \<noteq> []
               then St_error (''You got these wrong: '' @ py_join '', ''
                      (map prob_id (filter (\<lambda>p. per_problem (prob_id p) = Some False) (resolved ps))))
               else St_success ''All correct!'']"
    by (simp add: feedback_def wrong_ids_eq[OF k])
  show "feedback ''test2'' attempt ps per_problem =
               Inr (St_info ''Test mode-2: Final results. Correct answers revealed.''
                    # concat (map (\<lambda>p. [St_mark (prob_id p) (the (per_problem (prob_id p))),
                                          St_caption ''Correct answer:'', answer_code p])
                                  (resolved ps)))" if "attempt \<noteq> 1"
    using that by (simp add: feedback_def reveal_loop_eq[OF k])
next
  show "reveals_answer (answer_code p)" by (rule reveals_answer_code)
qed


theorem feedback_disclosure_witness:
  "feedback ''training'' 5 (map (get_problem demo_db) [''P1'', ''GONE'', ''T1''])
       [''P1'' \<mapsto> True, ''T1'' \<mapsto> False]
     = Inr [St_info ''Training mode: see per-problem correctness below. You can try again anytime.'',
            St_correctness ''P1'' True, St_correctness ''T1'' False]
   \<and> feedback ''test2'' 1 (map (get_problem demo_db) [''P1'', ''GONE'', ''T1''])
       [''P1'' \<mapsto> True, ''T1'' \<mapsto> False]
     = Inr [St_info ''Test mode-2: you have one more attempt. Incorrect questions shown below.'',
            St_error ''You got these wrong: T1'']
   \<and> feedback ''test2'' 2 (map (get_problem demo_db) [''P1'', ''GONE'', ''T1''])
       [''P1'' \<mapsto> True, ''T1'' \<mapsto> False]
     = Inr [St_info ''Test mode-2: Final results. Correct answers revealed.'',
            St_mark ''P1'' True, St_caption ''Correct answer:'', St_code ''paris'',
            St_mark ''T1'' False, St_caption ''Correct answer:'',
            St_code_json (JTab [[''A'', ''B''], [''C'', ''D'']])]"
proof -
  let ?ps = "map (get_problem demo_db) [''P1'', ''GONE'', ''T1'']"
  let ?pp = "[''P1'' \<mapsto> True, ''T1'' \<mapsto> False]"
  have r: "resolved ?ps =
      [\<lparr>prob_id = ''P1'', content = ''Capital of France?'', answer_type = ''single'',
        answer = JStr ''paris'', updated_at = ''2024-01-01''\<rparr>,
       \<lparr>prob_id = ''T1'', content = ''Copy the table.'', answer_type = ''table'',
        answer = JTab [[''A'', ''B''], [''C'', ''D'']], updated_at = ''2024-01-01''\<rparr>]"
    by (simp add: get_problem_def demo_db_def demo_problems_def)
  have k: "\<forall>p \<in> set (resolved ?ps). ?pp (prob_id p) \<noteq> None"
    by (simp only: r) auto
  from feedback_disclosure [of 5 ?ps ?pp] k
  have 1: "feedback ''training'' 5 ?ps ?pp =
      Inr (St_info ''Training mode: see per-problem correctness below. You can try again anytime.''
           # map (\<lambda>p. St_correctness (prob_id p) (the (?pp (prob_id p)))) (resolved ?ps))"
    by blast
  from feedback_disclosure [of 2 ?ps ?pp] k
  have 2: "feedback ''test2'' 1 ?ps ?pp =
          Inr [St_info ''Test mode-2: you have one more attempt. Incorrect questions shown below.'',
               if filter (\<lambda>p. ?pp (prob_id p) = Some False) (resolved ?ps) \<noteq> []
               then St_error (''You got these wrong: '' @ py_join '', ''
                      (map prob_id (filter (\<lambda>p. ?pp (prob_id p) = Some False) (resolved ?ps))))
               else St_success ''All correct!'']"
    and 3: "feedback ''test2'' 2 ?ps ?pp =
               Inr (St_info ''Test mode-2: Final results. Correct answers revealed.''
                    # concat (map (\<lambda>p. [St_mark (prob_id p) (the (?pp (prob_id p))),
                                          St_caption ''Correct answer:'', answer_code p])
                                  (resolved ?ps)))"
    by simp_all
  show ?thesis
    by (simp only: 1 2 3 r) (simp add: answer_code_def)
qed

subsection \<open>The page\<close>




















subsection \<open>Attempt numbers\<close>


lemma history_snoc:
  "map sub_attempt_no
     (filter (\<lambda>s. sub_paper_id s = pa \<and> sub_pupil_id s = pu) (subs @ [s]))
   = map sub_attempt_no (filter (\<lambda>s. sub_paper_id s = pa \<and> sub_pupil_id s = pu) subs)
     @ (if sub_paper_id s = pa \<and> sub_pupil_id s = pu then [sub_attempt_no s] else [])"
  by simp






end
